theory Spec2Isabelle
  imports Main "HOL-Library.AList"
begin

section \<open>Python values and text\<close>

text \<open>
  The agent of \<^verbatim>\<open>src/main.py\<close> moves three kinds of data around: text (Python
  \<^verbatim>\<open>str\<close>), the values that \<^verbatim>\<open>json.loads\<close> builds from the reply of the language
  model, and the values the tools return.

  Text is a \<^typ>\<open>string\<close>: the characters are the code points 0 to 255.  Python's floats
  are not given a representation: the type parameter \<open>'f\<close> stands for them, and the few
  operations the program applies to a float are passed in as a record, the way
  \<^verbatim>\<open>json.loads\<close> itself takes \<^verbatim>\<open>parse_float\<close>.

  A Python \<^verbatim>\<open>dict\<close> with text keys is an association list with distinct keys, in
  insertion order (the order \<^verbatim>\<open>list(d.keys())\<close> shows).
\<close>

datatype 'f json =
    JNull
  | JBool bool
  | JInt int
  | JFloat 'f
  | JStr string
  | JArr "'f json list"
  | JObj "(string \<times> 'f json) list"

record 'f float_ops =
  float_of_text :: "string \<Rightarrow> 'f"
  float_repr :: "'f \<Rightarrow> string"
  float_is_zero :: "'f \<Rightarrow> bool"

definition ord :: "char \<Rightarrow> nat" where
  "ord c = of_char c"

text \<open>\<^verbatim>\<open>str.isspace\<close> on the code points below 256, which is what \<^verbatim>\<open>str.strip()\<close> removes.\<close>

definition py_isspace :: "char \<Rightarrow> bool" where
  "py_isspace c =
     ((9 \<le> ord c \<and> ord c \<le> 13) \<or> (28 \<le> ord c \<and> ord c \<le> 32) \<or> ord c = 133 \<or> ord c = 160)"

definition lstrip :: "string \<Rightarrow> string" where
  "lstrip s = dropWhile py_isspace s"

definition rstrip :: "string \<Rightarrow> string" where
  "rstrip s = rev (dropWhile py_isspace (rev s))"

definition strip :: "string \<Rightarrow> string" where
  "strip s = rstrip (lstrip s)"

definition startswith :: "string \<Rightarrow> string \<Rightarrow> bool" where
  "startswith s p = (take (length p) s = p)"

definition endswith :: "string \<Rightarrow> string \<Rightarrow> bool" where
  "endswith s p = (length p \<le> length s \<and> drop (length s - length p) s = p)"

text \<open>\<^verbatim>\<open>sub in s\<close> for text.\<close>

fun contains :: "string \<Rightarrow> string \<Rightarrow> bool" where
  "contains [] sub = (sub = [])"
| "contains (c # cs) sub = (startswith (c # cs) sub \<or> contains cs sub)"

text \<open>\<^verbatim>\<open>dict(pairs)\<close>: a later pair with a key already present replaces the value and
  keeps the place of the first.\<close>

definition dict_of_pairs :: "(string \<times> 'v) list \<Rightarrow> (string \<times> 'v) list" where
  "dict_of_pairs ps = foldl (\<lambda>d (k, v). AList.update k v d) [] ps"

definition dict_get :: "(string \<times> 'v) list \<Rightarrow> string \<Rightarrow> 'v option" where
  "dict_get d k = map_of d k"


section \<open>The decoder: \<^verbatim>\<open>json.loads\<close>\<close>

text \<open>
  \<^verbatim>\<open>json.loads\<close> belongs to Python's standard library.  The functions below follow
  \<^verbatim>\<open>json/decoder.py\<close> and \<^verbatim>\<open>json/scanner.py\<close>: \<^verbatim>\<open>scanstring\<close>,
  the number pattern, \<^verbatim>\<open>scan_once\<close>, \<^verbatim>\<open>JSONObject\<close>, \<^verbatim>\<open>JSONArray\<close> and
  \<^verbatim>\<open>decode\<close>.  A position in the text is the text that remains.  \<open>None\<close> is
  \<^verbatim>\<open>JSONDecodeError\<close>.

  Limits of the model: an escape \<^verbatim>\<open>\uXXXX\<close> above \<^verbatim>\<open>\u00ff\<close> names a character that
  \<^typ>\<open>char\<close> does not have, and is treated as undecodable; Python's recursion limit
  and its limit on the digits of an integer literal are left out.
\<close>

definition json_ws :: "char \<Rightarrow> bool" where
  "json_ws c = (c = CHR '' '' \<or> c = CHR 0x09 \<or> c = CHR 0x0A \<or> c = CHR 0x0D)"

definition skip_ws :: "string \<Rightarrow> string" where
  "skip_ws s = dropWhile json_ws s"

definition is_digit :: "char \<Rightarrow> bool" where
  "is_digit c = (48 \<le> ord c \<and> ord c \<le> 57)"

definition hex_val :: "char \<Rightarrow> nat option" where
  "hex_val c =
    (if 48 \<le> ord c \<and> ord c \<le> 57 then Some (ord c - 48)
     else if 97 \<le> ord c \<and> ord c \<le> 102 then Some (ord c - 87)
     else if 65 \<le> ord c \<and> ord c \<le> 70 then Some (ord c - 55)
     else None)"

text \<open>\<^verbatim>\<open>_decode_uXXXX\<close>: four hexadecimal digits.\<close>

definition decode_uXXXX :: "string \<Rightarrow> nat option" where
  "decode_uXXXX s =
    (case map hex_val (take 4 s) of
       [Some a, Some b, Some c, Some d] \<Rightarrow> Some (((a * 16 + b) * 16 + c) * 16 + d)
     | _ \<Rightarrow> None)"

text \<open>The table \<^verbatim>\<open>BACKSLASH\<close>.\<close>

definition backslash :: "char \<Rightarrow> char option" where
  "backslash e =
    (if e = CHR 0x22 then Some (CHR 0x22)
     else if e = CHR 0x5C then Some (CHR 0x5C)
     else if e = CHR ''/'' then Some (CHR ''/'')
     else if e = CHR ''b'' then Some (CHR 0x08)
     else if e = CHR ''f'' then Some (CHR 0x0C)
     else if e = CHR ''n'' then Some (CHR 0x0A)
     else if e = CHR ''r'' then Some (CHR 0x0D)
     else if e = CHR ''t'' then Some (CHR 0x09)
     else None)"

text \<open>\<^verbatim>\<open>scanstring\<close> in strict mode, entered after the opening quote: the decoded text
  and what follows the closing quote.\<close>

fun scanstring :: "string \<Rightarrow> (string \<times> string) option" where
  "scanstring [] = None"
| "scanstring (c # cs) =
    (if c = CHR 0x22 then Some ([], cs)
     else if c = CHR 0x5C then
       (case cs of
          [] \<Rightarrow> None
        | e # es \<Rightarrow>
            if e = CHR ''u'' then
              (case decode_uXXXX es of
                 None \<Rightarrow> None
               | Some n \<Rightarrow>
                   if n < 256 then
                     (case scanstring (drop 4 es) of
                        None \<Rightarrow> None
                      | Some (str, rest) \<Rightarrow> Some (char_of n # str, rest))
                   else None)
            else
              (case backslash e of
                 None \<Rightarrow> None
               | Some ch \<Rightarrow>
                   (case scanstring es of
                      None \<Rightarrow> None
                    | Some (str, rest) \<Rightarrow> Some (ch # str, rest))))
     else if ord c < 32 then None
     else
       (case scanstring cs of
          None \<Rightarrow> None
        | Some (str, rest) \<Rightarrow> Some (c # str, rest)))"

text \<open>\<^verbatim>\<open>int(text)\<close> on decimal digits.\<close>

definition digits_value :: "string \<Rightarrow> nat" where
  "digits_value ds = foldl (\<lambda>n c. 10 * n + (ord c - 48)) 0 ds"

text \<open>
  The number pattern
  \<^verbatim>\<open>(-?(?:0|[1-9]\d*))(\.\d+)?([eE][-+]?\d+)?\<close>: the three groups it matches at the
  start of the text, and the rest.
\<close>

definition match_integer :: "string \<Rightarrow> (string \<times> string) option" where
  "match_integer s =
    (let (sign, s1) = (case s of c # cs \<Rightarrow> if c = CHR ''-'' then (''-'', cs) else ([], s) | [] \<Rightarrow> ([], s))
     in case s1 of
          [] \<Rightarrow> None
        | d # ds \<Rightarrow>
            if d = CHR ''0'' then Some (sign @ ''0'', ds)
            else if is_digit d then Some (sign @ takeWhile is_digit s1, dropWhile is_digit s1)
            else None)"

definition match_frac :: "string \<Rightarrow> string \<times> string" where
  "match_frac s =
    (case s of
       c # cs \<Rightarrow>
         if c = CHR ''.'' \<and> takeWhile is_digit cs \<noteq> []
         then (c # takeWhile is_digit cs, dropWhile is_digit cs)
         else ([], s)
     | [] \<Rightarrow> ([], s))"

definition match_exp :: "string \<Rightarrow> string \<times> string" where
  "match_exp s =
    (case s of
       c # cs \<Rightarrow>
         if c = CHR ''e'' \<or> c = CHR ''E'' then
           (let (sign, s1) =
                  (case cs of
                     d # ds \<Rightarrow> if d = CHR ''+'' \<or> d = CHR ''-'' then ([d], ds) else ([], cs)
                   | [] \<Rightarrow> ([], cs))
            in if takeWhile is_digit s1 \<noteq> []
               then (c # sign @ takeWhile is_digit s1, dropWhile is_digit s1)
               else ([], s))
         else ([], s)
     | [] \<Rightarrow> ([], s))"

definition int_of_text :: "string \<Rightarrow> int" where
  "int_of_text t =
    (case t of
       c # cs \<Rightarrow> if c = CHR ''-'' then - int (digits_value cs) else int (digits_value t)
     | [] \<Rightarrow> 0)"

definition match_number :: "'f float_ops \<Rightarrow> string \<Rightarrow> ('f json \<times> string) option" where
  "match_number fo s =
    (case match_integer s of
       None \<Rightarrow> None
     | Some (integer, s1) \<Rightarrow>
         (let (frac, s2) = match_frac s1;
              (exp, s3) = match_exp s2
          in if frac \<noteq> [] \<or> exp \<noteq> []
             then Some (JFloat (float_of_text fo (integer @ frac @ exp)), s3)
             else Some (JInt (int_of_text integer), s3)))"

text \<open>The literals and constants that \<^verbatim>\<open>scan_once\<close> recognises by their spelling; the
  number pattern is tried after \<^verbatim>\<open>null\<close>, \<^verbatim>\<open>true\<close>, \<^verbatim>\<open>false\<close> and before
  \<^verbatim>\<open>NaN\<close>, \<^verbatim>\<open>Infinity\<close>, \<^verbatim>\<open>-Infinity\<close>.\<close>

definition scan_atom :: "'f float_ops \<Rightarrow> string \<Rightarrow> ('f json \<times> string) option" where
  "scan_atom fo s =
    (if startswith s ''null'' then Some (JNull, drop 4 s)
     else if startswith s ''true'' then Some (JBool True, drop 4 s)
     else if startswith s ''false'' then Some (JBool False, drop 5 s)
     else
       (case match_number fo s of
          Some r \<Rightarrow> Some r
        | None \<Rightarrow>
            if startswith s ''NaN'' then Some (JFloat (float_of_text fo ''NaN''), drop 3 s)
            else if startswith s ''Infinity'' then Some (JFloat (float_of_text fo ''Infinity''), drop 8 s)
            else if startswith s ''-Infinity'' then Some (JFloat (float_of_text fo ''-Infinity''), drop 9 s)
            else None))"

lemma length_skip_ws: "length (skip_ws s) \<le> length s"
  by (simp add: skip_ws_def length_dropWhile_le)

lemma skip_ws_Cons_shorter: "skip_ws s = c # cs \<Longrightarrow> length cs < length s"
  using length_skip_ws [of s] by simp

lemma scanstring_shorter: "scanstring s = Some (str, rest) \<Longrightarrow> length rest < length s"
proof (induction s arbitrary: str rest rule: scanstring.induct)
  case 1
  then show ?case by simp
next
  case (2 c cs)
  show ?case
  proof (cases "c = CHR 0x22")
    case True
    with "2.prems" show ?thesis by simp
  next
    case quote: False
    show ?thesis
    proof (cases "c = CHR 0x5C")
      case False
      with quote "2.prems" "2.IH"(3) show ?thesis
        by (fastforce split: if_splits option.splits)
    next
      case True
      with quote "2.prems" obtain e es where cs: "cs = e # es"
        by (cases cs) auto
      show ?thesis
      proof (cases "e = CHR ''u''")
        case True
        with quote \<open>c = CHR 0x5C\<close> cs "2.prems" "2.IH"(1) show ?thesis
          by (fastforce split: if_splits option.splits)
      next
        case False
        with quote \<open>c = CHR 0x5C\<close> cs "2.prems" "2.IH"(2) show ?thesis
          by (fastforce split: if_splits option.splits)
      qed
    qed
  qed
qed

text \<open>
  \<^verbatim>\<open>scan_once\<close>, \<^verbatim>\<open>JSONObject\<close> and \<^verbatim>\<open>JSONArray\<close>.  \<open>object_pairs\<close> and
  \<open>array_values\<close> are the two \<^verbatim>\<open>while True\<close> loops; \<open>object_pairs\<close> is entered after
  the opening quote of a key, \<open>array_values\<close> at the start of a value.  The two tests
  \<open>length _ < length s\<close> before a loop goes round again always hold (the text left
  after a value is shorter); they are written out for the termination proof.
\<close>

function scan_once :: "'f float_ops \<Rightarrow> string \<Rightarrow> ('f json \<times> string) option"
  and json_object :: "'f float_ops \<Rightarrow> string \<Rightarrow> ('f json \<times> string) option"
  and object_pairs :: "'f float_ops \<Rightarrow> string \<Rightarrow> ((string \<times> 'f json) list \<times> string) option"
  and json_array :: "'f float_ops \<Rightarrow> string \<Rightarrow> ('f json \<times> string) option"
  and array_values :: "'f float_ops \<Rightarrow> string \<Rightarrow> ('f json list \<times> string) option"
where
  "scan_once fo [] = None"
| "scan_once fo (c # cs) =
    (if c = CHR 0x22 then
       (case scanstring cs of
          None \<Rightarrow> None
        | Some (str, rest) \<Rightarrow> Some (JStr str, rest))
     else if c = CHR ''{'' then json_object fo cs
     else if c = CHR ''['' then json_array fo cs
     else scan_atom fo (c # cs))"
| "json_object fo s =
    (case skip_ws s of
       [] \<Rightarrow> None
     | c # cs \<Rightarrow>
         if c = CHR ''}'' then Some (JObj [], cs)
         else if c = CHR 0x22 then
           (case object_pairs fo cs of
              None \<Rightarrow> None
            | Some (pairs, rest) \<Rightarrow> Some (JObj (dict_of_pairs pairs), rest))
         else None)"
| "object_pairs fo s =
    (case scanstring s of
       None \<Rightarrow> None
     | Some (key, s1) \<Rightarrow>
         (case skip_ws s1 of
            [] \<Rightarrow> None
          | c # s2 \<Rightarrow>
              if c \<noteq> CHR '':'' then None
              else
                (case scan_once fo (skip_ws s2) of
                   None \<Rightarrow> None
                 | Some (v, s3) \<Rightarrow>
                     (case skip_ws s3 of
                        [] \<Rightarrow> None
                      | d # s4 \<Rightarrow>
                          if d = CHR ''}'' then Some ([(key, v)], s4)
                          else if d = CHR '','' then
                            (case skip_ws s4 of
                               [] \<Rightarrow> None
                             | q # s5 \<Rightarrow>
                                 if q = CHR 0x22 \<and> length s5 < length s then
                                   (case object_pairs fo s5 of
                                      None \<Rightarrow> None
                                    | Some (pairs, rest) \<Rightarrow> Some ((key, v) # pairs, rest))
                                 else None)
                          else None))))"
| "json_array fo s =
    (case skip_ws s of
       [] \<Rightarrow> None
     | c # cs \<Rightarrow>
         if c = CHR '']'' then Some (JArr [], cs)
         else
           (case array_values fo (c # cs) of
              None \<Rightarrow> None
            | Some (values, rest) \<Rightarrow> Some (JArr values, rest)))"
| "array_values fo s =
    (case scan_once fo s of
       None \<Rightarrow> None
     | Some (v, s1) \<Rightarrow>
         (case skip_ws s1 of
            [] \<Rightarrow> None
          | d # s2 \<Rightarrow>
              if d = CHR '']'' then Some ([v], s2)
              else if d = CHR '','' then
                (if length s2 < length s then
                   (case array_values fo (skip_ws s2) of
                      None \<Rightarrow> None
                    | Some (values, rest) \<Rightarrow> Some (v # values, rest))
                 else None)
              else None))"
  by pat_completeness auto

termination
proof (relation "measures
    [\<lambda>x. case x of
            Inl (Inl (fo, s)) \<Rightarrow> length s
          | Inl (Inr (fo, s)) \<Rightarrow> length s
          | Inr (Inl (fo, s)) \<Rightarrow> length s
          | Inr (Inr (Inl (fo, s))) \<Rightarrow> length s
          | Inr (Inr (Inr (fo, s))) \<Rightarrow> length s,
     \<lambda>x. case x of
            Inl (Inl (fo, s)) \<Rightarrow> 0
          | Inl (Inr (fo, s)) \<Rightarrow> 1
          | Inr (Inl (fo, s)) \<Rightarrow> 1
          | Inr (Inr (Inl (fo, s))) \<Rightarrow> 2
          | Inr (Inr (Inr (fo, s))) \<Rightarrow> 1]")
  show "wf (measures
    [\<lambda>x. case x of
            Inl (Inl (fo, s)) \<Rightarrow> length s
          | Inl (Inr (fo, s)) \<Rightarrow> length s
          | Inr (Inl (fo, s)) \<Rightarrow> length s
          | Inr (Inr (Inl (fo, s))) \<Rightarrow> length s
          | Inr (Inr (Inr (fo, s))) \<Rightarrow> length (s::string),
     \<lambda>x. case x of
            Inl (Inl (fo, s)) \<Rightarrow> 0
          | Inl (Inr (fo, s)) \<Rightarrow> 1
          | Inr (Inl (fo, s)) \<Rightarrow> 1
          | Inr (Inr (Inl (fo, s))) \<Rightarrow> 2
          | Inr (Inr (Inr (fo, s))) \<Rightarrow> (1::nat)] :: (((('f float_ops \<times> string) + ('f float_ops \<times> string)) + (('f float_ops \<times> string) + (('f float_ops \<times> string) + ('f float_ops \<times> string)))) \<times> _) set)"
    by simp
qed (auto dest!: scanstring_shorter skip_ws_Cons_shorter
      intro: le_less_trans [OF length_skip_ws] le_imp_less_Suc [OF length_skip_ws])

declare json_object.simps [simp del] object_pairs.simps [simp del]
  json_array.simps [simp del] array_values.simps [simp del]

text \<open>\<^verbatim>\<open>JSONDecoder.decode\<close>: blanks, one value, blanks, the end of the text.\<close>

definition json_loads :: "'f float_ops \<Rightarrow> string \<Rightarrow> 'f json option" where
  "json_loads fo s =
    (case scan_once fo (skip_ws s) of
       None \<Rightarrow> None
     | Some (obj, rest) \<Rightarrow> if skip_ws rest = [] then Some obj else None)"

section \<open>Reading the reply of the language model: \<^verbatim>\<open>AIAgent._determine_tool\<close>\<close>

text \<open>Lines 128 to 137 of \<^verbatim>\<open>src/main.py\<close>: the text handed to the first
  \<^verbatim>\<open>json.loads\<close>.\<close>

definition cleaned_response_for_parsing :: "string \<Rightarrow> string" where
  "cleaned_response_for_parsing raw_response_content =
    (let c0 = strip raw_response_content;
         c1 = (if startswith c0 ''```json'' then strip (drop (length ''```json'') c0)
               else if startswith c0 ''```'' then strip (drop (length ''```'') c0)
               else c0)
     in if endswith c1 ''```'' then strip (take (length c1 - length ''```'') c1) else c1)"

text \<open>Line 152, \<^verbatim>\<open>re.search(r"\{.*?\}", raw_response_content, re.DOTALL)\<close>: the
  leftmost opening brace that has a closing brace after it, up to the nearest such closing
  brace.  A closing brace after some opening brace is one after the first opening brace, so
  the match, when there is one, starts at the first opening brace of the text.\<close>

definition match_markdown_fallback :: "string \<Rightarrow> string option" where
  "match_markdown_fallback raw =
    (case dropWhile (\<lambda>c. c \<noteq> CHR ''{'') raw of
       [] \<Rightarrow> None
     | c # cs \<Rightarrow>
         if CHR ''}'' \<in> set cs
         then Some (c # takeWhile (\<lambda>d. d \<noteq> CHR ''}'') cs @ ''}'')
         else None)"

definition error_parsing_after_fallback :: "string \<Rightarrow> (string \<times> 'f json) list" where
  "error_parsing_after_fallback raw =
    [(''tool'', JStr ''error_parsing_llm_response''),
     (''parameters'', JObj
        [(''details'', JStr ''Could not parse JSON from LLM after cleaning and fallback.''),
         (''raw_content'', JStr raw)])]"

definition error_parsing_nothing_found :: "string \<Rightarrow> (string \<times> 'f json) list" where
  "error_parsing_nothing_found raw =
    [(''tool'', JStr ''error_parsing_llm_response''),
     (''parameters'', JObj
        [(''details'', JStr ''Could not parse JSON from LLM, and fallback regex found nothing.''),
         (''raw_content'', JStr raw)])]"

definition error_invalid_structure :: "'f json \<Rightarrow> (string \<times> 'f json) list" where
  "error_invalid_structure result =
    [(''tool'', JStr ''error_invalid_llm_response_structure''),
     (''parameters'', JObj
        [(''details'', JStr ''LLM response not a dict or missing 'tool' key.''),
         (''parsed_content'', result)])]"

text \<open>Lines 123 to 174: from the text of the reply to the decision, a \<^verbatim>\<open>dict\<close>.
  \<open>Inl\<close> is an early \<^verbatim>\<open>return\<close> from inside the handler of
  \<^verbatim>\<open>json.JSONDecodeError\<close>.\<close>

definition parse_result :: "'f float_ops \<Rightarrow> string \<Rightarrow> (string \<times> 'f json) list + 'f json" where
  "parse_result fo raw =
    (case json_loads fo (cleaned_response_for_parsing raw) of
       Some result \<Rightarrow> Inr result
     | None \<Rightarrow>
         (case match_markdown_fallback raw of
            Some json_str_fallback \<Rightarrow>
              (case json_loads fo json_str_fallback of
                 Some result \<Rightarrow> Inr result
               | None \<Rightarrow> Inl (error_parsing_after_fallback raw))
          | None \<Rightarrow> Inl (error_parsing_nothing_found raw)))"

definition interpret_response :: "'f float_ops \<Rightarrow> string \<Rightarrow> (string \<times> 'f json) list" where
  "interpret_response fo raw =
    (case parse_result fo raw of
       Inl sentinel \<Rightarrow> sentinel
     | Inr result \<Rightarrow>
         (case result of
            JObj d \<Rightarrow> if ''tool'' \<in> fst ` set d then d else error_invalid_structure result
          | _ \<Rightarrow> error_invalid_structure result))"

section \<open>Text of a value: \<^verbatim>\<open>str\<close> and \<^verbatim>\<open>repr\<close>\<close>

text \<open>The messages of the agent are f-strings; a value placed in one is turned into text
  by \<^verbatim>\<open>str\<close>, which for everything but text itself is \<^verbatim>\<open>repr\<close>.\<close>

definition hex_digit :: "nat \<Rightarrow> char" where
  "hex_digit n = (if n < 10 then char_of (48 + n) else char_of (87 + n))"

definition py_isprintable :: "char \<Rightarrow> bool" where
  "py_isprintable c = ((32 \<le> ord c \<and> ord c \<le> 126) \<or> (161 \<le> ord c \<and> ord c \<noteq> 173))"

definition repr_char :: "char \<Rightarrow> char \<Rightarrow> string" where
  "repr_char quote c =
    (if c = quote \<or> c = CHR 0x5C then [CHR 0x5C, c]
     else if c = CHR 0x09 then [CHR 0x5C, CHR ''t'']
     else if c = CHR 0x0A then [CHR 0x5C, CHR ''n'']
     else if c = CHR 0x0D then [CHR 0x5C, CHR ''r'']
     else if \<not> py_isprintable c
       then [CHR 0x5C, CHR ''x'', hex_digit (ord c div 16), hex_digit (ord c mod 16)]
     else [c])"

definition repr_str :: "string \<Rightarrow> string" where
  "repr_str s =
    (let quote = (if CHR 0x27 \<in> set s \<and> CHR 0x22 \<notin> set s then CHR 0x22 else CHR 0x27)
     in quote # concat (map (repr_char quote) s) @ [quote])"

fun nat_digits :: "nat \<Rightarrow> string" where
  "nat_digits n = (if n < 10 then [char_of (48 + n)] else nat_digits (n div 10) @ [char_of (48 + n mod 10)])"

declare nat_digits.simps [simp del]

definition repr_int :: "int \<Rightarrow> string" where
  "repr_int i = (if i < 0 then CHR ''-'' # nat_digits (nat (- i)) else nat_digits (nat i))"

text \<open>\<^verbatim>\<open>sep.join(parts)\<close>.\<close>

fun join :: "string \<Rightarrow> string list \<Rightarrow> string" where
  "join sep [] = []"
| "join sep [x] = x"
| "join sep (x # y # ys) = x @ sep @ join sep (y # ys)"

fun py_repr :: "'f float_ops \<Rightarrow> 'f json \<Rightarrow> string"
  and repr_items :: "'f float_ops \<Rightarrow> 'f json list \<Rightarrow> string list"
  and repr_pairs :: "'f float_ops \<Rightarrow> (string \<times> 'f json) list \<Rightarrow> string list"
where
  "py_repr fo JNull = ''None''"
| "py_repr fo (JBool b) = (if b then ''True'' else ''False'')"
| "py_repr fo (JInt i) = repr_int i"
| "py_repr fo (JFloat x) = float_repr fo x"
| "py_repr fo (JStr s) = repr_str s"
| "py_repr fo (JArr vs) = ''['' @ join '', '' (repr_items fo vs) @ '']''"
| "py_repr fo (JObj d) = ''{'' @ join '', '' (repr_pairs fo d) @ ''}''"
| "repr_items fo [] = []"
| "repr_items fo (v # vs) = py_repr fo v # repr_items fo vs"
| "repr_pairs fo [] = []"
| "repr_pairs fo ((k, v) # d) = (repr_str k @ '': '' @ py_repr fo v) # repr_pairs fo d"

definition py_str :: "'f float_ops \<Rightarrow> 'f json \<Rightarrow> string" where
  "py_str fo v = (case v of JStr s \<Rightarrow> s | _ \<Rightarrow> py_repr fo v)"

text \<open>\<^verbatim>\<open>bool(v)\<close>, the test behind \<^verbatim>\<open>not v\<close>.\<close>

definition truthy :: "'f float_ops \<Rightarrow> 'f json \<Rightarrow> bool" where
  "truthy fo v =
    (case v of
       JNull \<Rightarrow> False
     | JBool b \<Rightarrow> b
     | JInt i \<Rightarrow> i \<noteq> 0
     | JFloat x \<Rightarrow> \<not> float_is_zero fo x
     | JStr s \<Rightarrow> s \<noteq> []
     | JArr vs \<Rightarrow> vs \<noteq> []
     | JObj d \<Rightarrow> d \<noteq> [])"

text \<open>\<^verbatim>\<open>type(v).__name__\<close>.\<close>

definition type_name :: "'f json \<Rightarrow> string" where
  "type_name v =
    (case v of
       JNull \<Rightarrow> ''NoneType''
     | JBool b \<Rightarrow> ''bool''
     | JInt i \<Rightarrow> ''int''
     | JFloat x \<Rightarrow> ''float''
     | JStr s \<Rightarrow> ''str''
     | JArr vs \<Rightarrow> ''list''
     | JObj d \<Rightarrow> ''dict'')"

section \<open>Exceptions, results and the world outside the program\<close>

text \<open>
  An exception is known to the program by the handlers it meets.  \<open>exc_class\<close> lists the
  classes that the handlers of \<^verbatim>\<open>src/\<close> name; an exception carries the most specific
  of them it is an instance of.  \<open>OtherException\<close> is an instance of \<^verbatim>\<open>Exception\<close> and
  of none of the named classes.  \<open>NonException\<close> is an instance of \<^verbatim>\<open>BaseException\<close>
  only (\<^verbatim>\<open>KeyboardInterrupt\<close>, \<^verbatim>\<open>SystemExit\<close>, \<^verbatim>\<open>GeneratorExit\<close>): the clause
  \<^verbatim>\<open>except Exception\<close> lets it pass.  \<open>exc_name\<close> is \<^verbatim>\<open>type(e).__name__\<close> and
  \<open>exc_text\<close> is \<^verbatim>\<open>str(e)\<close>.
\<close>

datatype exc_class =
    ZeroDivisionError
  | SyntaxError
  | NameError
  | TypeError
  | AttributeError
  | PdfReadError
  | UnicodeDecodeError
  | FileNotFoundError
  | PermissionError
  | OtherException
  | NonException

datatype pyexc = PyExc (exc_class: exc_class) (exc_name: string) (exc_text: string)

definition is_Exception :: "pyexc \<Rightarrow> bool" where
  "is_Exception e = (exc_class e \<noteq> NonException)"

datatype 'a result = Returns 'a | Raises pyexc

text \<open>What a tool returns: text, or the \<^verbatim>\<open>float\<close> of the calculator.\<close>

datatype 'f pyval = PStr string | PFloat 'f

text \<open>The reply of the chat-completion client to the prompt built from the user's input.
  \<open>Failed e\<close> is any exception raised between line 111 and line 121: by the client, by the
  access to \<^verbatim>\<open>response.choices[0].message.content\<close>, or by a content that is not
  text.  The prompt is a function of the input and of the fixed descriptions of the tools,
  so the client is taken as a function of the input.\<close>

datatype llm_outcome = Content string | Failed pyexc

text \<open>Line 67 to 69 of \<^verbatim>\<open>src/tools/calculator.py\<close>: \<^verbatim>\<open>eval\<close> of the processed
  expression in the restricted scope, and the test and conversion of its result.
  \<open>Number x\<close>: the result is an \<^verbatim>\<open>int\<close> or a \<^verbatim>\<open>float\<close> and \<open>x\<close> is its
  \<^verbatim>\<open>float(result)\<close>.  \<open>NotNumber t\<close>: the result is something else and \<open>t\<close> is its
  \<^verbatim>\<open>str\<close>.\<close>

datatype 'f eval_outcome = Number 'f | NotNumber string | EvalRaises pyexc

text \<open>Messages whose wording is the interpreter's: the \<^verbatim>\<open>TypeError\<close> of a call whose
  keyword arguments do not fit the signature (tool class, supplied names), the
  \<^verbatim>\<open>TypeError\<close> of hashing a list or a dict (type name), and the \<^verbatim>\<open>TypeError\<close> of
  \<^verbatim>\<open>os.path.join\<close> on a value that is not text (type name).\<close>

datatype runtime_message =
    BadCall string "string list"
  | Unhashable string
  | BadJoin string

text \<open>The file system as \<^verbatim>\<open>src/tools/file_reader.py\<close> asks about it, by absolute
  path.  \<open>fs_read_text p n\<close> is \<^verbatim>\<open>open(p, 'r', encoding='utf-8')\<close> and
  \<^verbatim>\<open>f.read(n)\<close>; \<open>fs_pdf_pages p\<close> is the text that \<^verbatim>\<open>extract_text()\<close> gives for
  each page of the PDF at \<open>p\<close>.\<close>

record file_system =
  fs_exists :: "string \<Rightarrow> bool"
  fs_isfile :: "string \<Rightarrow> bool"
  fs_getsize :: "string \<Rightarrow> nat result"
  fs_read_text :: "string \<Rightarrow> nat \<Rightarrow> string result"
  fs_pdf_pages :: "string \<Rightarrow> string list result"

record 'f world =
  floats :: "'f float_ops"
  llm :: "string \<Rightarrow> llm_outcome"
  runtime_text :: "runtime_message \<Rightarrow> string"
  py_eval :: "string \<Rightarrow> 'f eval_outcome"
  FILE_READ_BASE_PATH :: string
  getcwd :: string
  PYPDF2_AVAILABLE :: bool
  files :: file_system
  weather_execute :: "'f json \<Rightarrow> 'f pyval result"

text \<open>The end of \<^verbatim>\<open>_determine_tool\<close>: the call of the client and the handler of line
  175.\<close>

definition error_in_tool_determination :: "pyexc \<Rightarrow> (string \<times> 'f json) list" where
  "error_in_tool_determination e =
    [(''tool'', JStr ''error_in_tool_determination''),
     (''parameters'', JObj [(''details'', JStr (exc_text e))])]"

definition determine_tool :: "'f world \<Rightarrow> string \<Rightarrow> (string \<times> 'f json) list result" where
  "determine_tool w user_input =
    (case llm w user_input of
       Content raw_response_content \<Rightarrow> Returns (interpret_response (floats w) raw_response_content)
     | Failed e \<Rightarrow>
         if is_Exception e then Returns (error_in_tool_determination e) else Raises e)"

section \<open>The tools\<close>

subsection \<open>\<^verbatim>\<open>CalculatorTool.execute\<close>\<close>

text \<open>\<^verbatim>\<open>s.replace(old, new)\<close> for a pattern \<open>old\<close> that is not empty (it never is
  here).\<close>

function replace :: "string \<Rightarrow> string \<Rightarrow> string \<Rightarrow> string" where
  "replace old new [] = []"
| "replace old new (c # cs) =
    (if old \<noteq> [] \<and> startswith (c # cs) old
     then new @ replace old new (drop (length old) (c # cs))
     else c # replace old new cs)"
  by pat_completeness auto
termination
  by (relation "measure (\<lambda>(old, new, s). length s)") auto

text \<open>The class \<^verbatim>\<open>[a-zA-Z0-9\s_.\+\-\*/\(\)\^%]\<close> of line 59.\<close>

definition expression_char :: "char \<Rightarrow> bool" where
  "expression_char c =
    ((97 \<le> ord c \<and> ord c \<le> 122) \<or> (65 \<le> ord c \<and> ord c \<le> 90) \<or> is_digit c \<or> py_isspace c
     \<or> c \<in> set ''_.+-*/()^%'')"

definition sq :: string where
  "sq = [CHR 0x27]"

definition calculator_execute :: "'f world \<Rightarrow> 'f json \<Rightarrow> 'f pyval result" where
  "calculator_execute w expression =
    (case expression of
       JStr e \<Rightarrow>
         if strip e = [] then Returns (PStr ''Error: Empty expression provided.'')
         else if \<not> list_all expression_char e
           then Returns (PStr (''Error: Expression '' @ sq @ e @ sq @ '' contains invalid characters.''))
         else
           (case py_eval w (replace ''^'' ''**'' e) of
              Number x \<Rightarrow> Returns (PFloat x)
            | NotNumber t \<Rightarrow>
                Returns (PStr (''Error: Expression did not evaluate to a number. Result: '' @ t))
            | EvalRaises ex \<Rightarrow>
                (case exc_class ex of
                   ZeroDivisionError \<Rightarrow> Returns (PStr ''Error: Cannot divide by zero.'')
                 | SyntaxError \<Rightarrow>
                     Returns (PStr (''Error: Invalid syntax in expression: '' @ sq @ e @ sq @ ''.''))
                 | NameError \<Rightarrow>
                     Returns (PStr (''Error: Unknown function or variable in expression: '' @ sq @ e
                       @ sq @ ''. Details: '' @ exc_text ex))
                 | TypeError \<Rightarrow>
                     Returns (PStr (''Error: Type error in expression '' @ sq @ e @ sq
                       @ ''. Check function arguments. Details: '' @ exc_text ex))
                 | NonException \<Rightarrow> Raises ex
                 | _ \<Rightarrow>
                     Returns (PStr (''Error calculating expression '' @ sq @ e @ sq @ '': ''
                       @ exc_text ex @ '' (Type: '' @ exc_name ex @ '')''))))
     | v \<Rightarrow>
         Raises (PyExc AttributeError ''AttributeError''
           (sq @ type_name v @ sq @ '' object has no attribute '' @ sq @ ''strip'' @ sq)))"

subsection \<open>\<^verbatim>\<open>os.path\<close> on POSIX\<close>

definition isabs :: "string \<Rightarrow> bool" where
  "isabs p = startswith p ''/''"

definition path_join :: "string \<Rightarrow> string \<Rightarrow> string" where
  "path_join a b =
    (if startswith b ''/'' then b
     else if a = [] \<or> endswith a ''/'' then a @ b
     else a @ ''/'' @ b)"

text \<open>\<^verbatim>\<open>p.split('/')\<close>.\<close>

fun split_slash :: "string \<Rightarrow> string list" where
  "split_slash [] = [[]]"
| "split_slash (c # cs) =
    (if c = CHR ''/'' then [] # split_slash cs
     else (case split_slash cs of x # xs \<Rightarrow> (c # x) # xs | [] \<Rightarrow> [[c]]))"

definition norm_step :: "nat \<Rightarrow> string list \<Rightarrow> string \<Rightarrow> string list" where
  "norm_step initial_slashes new_comps name =
    (if name = [] \<or> name = ''.'' then new_comps
     else if name \<noteq> ''..'' \<or> (initial_slashes = 0 \<and> new_comps = [])
             \<or> (new_comps \<noteq> [] \<and> last new_comps = ''..'')
       then new_comps @ [name]
     else if new_comps \<noteq> [] then butlast new_comps
     else new_comps)"

definition initial_slashes :: "string \<Rightarrow> nat" where
  "initial_slashes path =
    (if startswith path ''//'' \<and> \<not> startswith path ''///'' then 2
     else if startswith path ''/'' then 1 else 0)"

definition normpath :: "string \<Rightarrow> string" where
  "normpath path =
    (if path = [] then ''.''
     else
       (let comps = foldl (norm_step (initial_slashes path)) [] (split_slash path);
            joined = replicate (initial_slashes path) (CHR ''/'') @ join ''/'' comps
        in if joined = [] then ''.'' else joined))"

definition abspath :: "string \<Rightarrow> string \<Rightarrow> string" where
  "abspath cwd path = normpath (if isabs path then path else path_join cwd path)"

text \<open>The second component of \<^verbatim>\<open>os.path.splitext(p)\<close>.\<close>

definition splitext_ext :: "string \<Rightarrow> string" where
  "splitext_ext p =
    (let name = rev (takeWhile (\<lambda>c. c \<noteq> CHR ''/'') (rev p));
         ext = rev (takeWhile (\<lambda>c. c \<noteq> CHR ''.'') (rev name));
         stem = take (length name - length ext - 1) name
     in if CHR ''.'' \<in> set name \<and> (\<exists>c \<in> set stem. c \<noteq> CHR ''.'') then CHR ''.'' # ext else [])"

definition lower_char :: "char \<Rightarrow> char" where
  "lower_char c =
    (if (65 \<le> ord c \<and> ord c \<le> 90) \<or> (192 \<le> ord c \<and> ord c \<le> 222 \<and> ord c \<noteq> 215)
     then char_of (ord c + 32) else c)"

definition lower :: "string \<Rightarrow> string" where
  "lower s = map lower_char s"

subsection \<open>\<^verbatim>\<open>FileReaderTool.execute\<close>\<close>

definition MAX_FILE_SIZE_BYTES :: nat where
  "MAX_FILE_SIZE_BYTES = 1024 * 1024"

definition MAX_CHARS_RETURN :: nat where
  "MAX_CHARS_RETURN = 10000"

text \<open>\<^verbatim>\<open>re.sub(r' +', ' ', text)\<close>.\<close>

fun sub_spaces :: "string \<Rightarrow> string" where
  "sub_spaces [] = []"
| "sub_spaces (c # cs) = (if c = CHR '' '' \<and> startswith cs '' '' then sub_spaces cs else c # sub_spaces cs)"

text \<open>\<^verbatim>\<open>re.sub(r'\\n+', '\\n', text)\<close>: the pattern is a backslash followed by one
  or more letters n, and the replacement template stands for a line feed.\<close>

fun drop_n :: "string \<Rightarrow> string" where
  "drop_n [] = []"
| "drop_n (c # cs) = (if c = CHR ''n'' then drop_n cs else c # cs)"

lemma length_drop_n [termination_simp]: "length (drop_n s) \<le> length s"
  by (induction s) auto

fun sub_backslash_n :: "string \<Rightarrow> string" where
  "sub_backslash_n [] = []"
| "sub_backslash_n (c # cs) =
    (if c = CHR 0x5C \<and> startswith cs ''n'' then CHR 0x0A # sub_backslash_n (drop_n cs)
     else c # sub_backslash_n cs)"

text \<open>\<^verbatim>\<open>text.split(sep)\<close> for a separator that is not empty.\<close>

function split :: "string \<Rightarrow> string \<Rightarrow> string list" where
  "split sep [] = [[]]"
| "split sep (c # cs) =
    (if sep \<noteq> [] \<and> startswith (c # cs) sep then [] # split sep (drop (length sep) (c # cs))
     else (case split sep cs of x # xs \<Rightarrow> (c # x) # xs | [] \<Rightarrow> [[c]]))"
  by pat_completeness auto
termination
  by (relation "measure (\<lambda>(sep, s). length s)") auto

definition clean_pdf_text :: "string \<Rightarrow> string" where
  "clean_pdf_text text0 =
    (if text0 = [] then []
     else
       (let t1 = sub_spaces text0;
            t2 = sub_backslash_n t1;
            t3 = join [CHR 0x5C, CHR ''n''] (map strip (split [CHR 0x5C, CHR ''n''] t2));
            t4 = replace [CHR '' '', CHR 0x5C, CHR ''n'', CHR '' ''] '' '' t3
        in strip t4))"

text \<open>Lines 91 to 166: the path has passed the checks.  The three handlers of the outer
  \<^verbatim>\<open>try\<close> apply to \<^verbatim>\<open>os.path.getsize\<close>; the reads have handlers of their own,
  and none of them stops an exception that is not an \<^verbatim>\<open>Exception\<close>.\<close>

definition finish_content :: "string \<Rightarrow> string \<Rightarrow> 'f pyval result" where
  "finish_content file_path content =
    (if length content > MAX_CHARS_RETURN
       then Returns (PStr (take MAX_CHARS_RETURN content
              @ [CHR 0x0A] @ ''... (file content truncated at 10000 characters)''))
     else if strip content = []
       then Returns (PStr (''Info: File '' @ sq @ file_path @ sq
              @ '' is empty or contains no extractable/readable text content after processing.''))
     else Returns (PStr content))"

definition read_pdf :: "'f world \<Rightarrow> string \<Rightarrow> string \<Rightarrow> 'f pyval result" where
  "read_pdf w file_path absolute_filepath =
    (if \<not> PYPDF2_AVAILABLE w
       then Returns (PStr ''Error: Cannot read PDF. PyPDF2 library is not installed. Please install it (e.g., pip install PyPDF2).'')
     else
       (case fs_pdf_pages (files w) absolute_filepath of
          Returns pages \<Rightarrow>
            (let raw_content = join [CHR 0x0A] (filter (\<lambda>t. t \<noteq> []) pages);
                 content = clean_pdf_text raw_content
             in if strip content = []
                then Returns (PStr (''Info: PDF file '' @ sq @ file_path @ sq
                       @ '' was read, but no text content could be extracted or remained after cleaning (it might be an image-based PDF or empty).''))
                else finish_content file_path content)
        | Raises ex \<Rightarrow>
            if exc_class ex = PdfReadError
              then Returns (PStr (''Error reading PDF '' @ sq @ file_path @ sq
                     @ '': Invalid or corrupted PDF file. Details: '' @ exc_text ex))
            else if is_Exception ex
              then Returns (PStr (''Error processing PDF file '' @ sq @ file_path @ sq @ '': ''
                     @ exc_text ex))
            else Raises ex))"

definition read_plain :: "'f world \<Rightarrow> string \<Rightarrow> string \<Rightarrow> 'f pyval result" where
  "read_plain w file_path absolute_filepath =
    (case fs_read_text (files w) absolute_filepath (MAX_CHARS_RETURN + 1) of
       Returns content \<Rightarrow> finish_content file_path content
     | Raises ex \<Rightarrow>
         if exc_class ex = UnicodeDecodeError
           then Returns (PStr (''Error: Could not decode file '' @ sq @ file_path @ sq
                  @ '' using UTF-8. It might be a binary file of an unsupported type or use a different encoding.''))
         else if is_Exception ex
           then Returns (PStr (''Error reading text file '' @ sq @ file_path @ sq @ '': ''
                  @ exc_text ex))
         else Raises ex)"

definition read_checked :: "'f world \<Rightarrow> string \<Rightarrow> string \<Rightarrow> 'f pyval result" where
  "read_checked w file_path absolute_filepath =
    (if \<not> fs_exists (files w) absolute_filepath
       then Returns (PStr (''Error: File not found at '' @ sq @ file_path @ sq @ '' (resolved: ''
              @ sq @ absolute_filepath @ sq @ '')''))
     else if \<not> fs_isfile (files w) absolute_filepath
       then Returns (PStr (''Error: Path '' @ sq @ file_path @ sq @ '' is not a file.''))
     else
       (case fs_getsize (files w) absolute_filepath of
          Raises ex \<Rightarrow>
            if exc_class ex = FileNotFoundError
              then Returns (PStr (''Error: File not found at '' @ sq @ file_path @ sq @ ''.''))
            else if exc_class ex = PermissionError
              then Returns (PStr (''Error: Permission denied for file '' @ sq @ file_path @ sq @ ''.''))
            else if is_Exception ex
              then Returns (PStr (''Unexpected error reading file '' @ sq @ file_path @ sq @ '': ''
                     @ exc_text ex))
            else Raises ex
        | Returns nbytes \<Rightarrow>
            if nbytes > MAX_FILE_SIZE_BYTES
              then Returns (PStr (''Error: File '' @ sq @ file_path @ sq @ '' too large (>1.0MB).''))
            else if lower (splitext_ext absolute_filepath) = ''.pdf''
              then read_pdf w file_path absolute_filepath
            else read_plain w file_path absolute_filepath))"

text \<open>Lines 69 to 89: the checks on the path.  A value that is not text and is not falsy
  makes \<^verbatim>\<open>os.path.join\<close> raise a \<^verbatim>\<open>TypeError\<close>, which the handler of line 83
  turns into a message.\<close>

definition file_reader_execute :: "'f world \<Rightarrow> 'f json \<Rightarrow> 'f pyval result" where
  "file_reader_execute w file_path =
    (if \<not> truthy (floats w) file_path then Returns (PStr ''Error: File path parameter is required.'')
     else
       (case file_path of
          JStr p \<Rightarrow>
            (let absolute_filepath = abspath (getcwd w) (path_join (FILE_READ_BASE_PATH w) p)
             in if \<not> startswith absolute_filepath (abspath (getcwd w) (FILE_READ_BASE_PATH w))
                  then Returns (PStr ''Error: Access denied. Path is outside allowed directory.'')
                else if contains p ''..''
                  then Returns (PStr (''Error: Path should not contain '' @ sq @ ''..'' @ sq @ ''.''))
                else if isabs p
                  then Returns (PStr ''Error: Absolute file paths are not allowed.'')
                else read_checked w p absolute_filepath)
        | v \<Rightarrow>
            Returns (PStr (''Error processing file_path '' @ sq @ py_str (floats w) v @ sq @ '': ''
              @ runtime_text w (BadJoin (type_name v))))))"


section \<open>The dispatcher: \<^verbatim>\<open>AIAgent.process_request\<close>\<close>

text \<open>\<^verbatim>\<open>self.tools\<close> of lines 53 to 58.  Each \<^verbatim>\<open>execute\<close> has one parameter
  besides \<^verbatim>\<open>self\<close>, without a default: \<open>expected_params\<close> is what
  \<^verbatim>\<open>inspect.signature(tool.execute)\<close> lists.\<close>

datatype tool = CalculatorTool | FileReaderTool | WeatherFetcherTool

definition tools :: "(string \<times> tool) list" where
  "tools =
    [(''calculator'', CalculatorTool),
     (''file_reader'', FileReaderTool),
     (''weather_fetcher'', WeatherFetcherTool)]"

definition expected_params :: "tool \<Rightarrow> string list" where
  "expected_params t =
    (case t of
       CalculatorTool \<Rightarrow> [''expression'']
     | FileReaderTool \<Rightarrow> [''file_path'']
     | WeatherFetcherTool \<Rightarrow> [''city''])"

definition class_name :: "tool \<Rightarrow> string" where
  "class_name t =
    (case t of
       CalculatorTool \<Rightarrow> ''CalculatorTool''
     | FileReaderTool \<Rightarrow> ''FileReaderTool''
     | WeatherFetcherTool \<Rightarrow> ''WeatherFetcherTool'')"

definition tool_body :: "'f world \<Rightarrow> tool \<Rightarrow> 'f json \<Rightarrow> 'f pyval result" where
  "tool_body w t arg =
    (case t of
       CalculatorTool \<Rightarrow> calculator_execute w arg
     | FileReaderTool \<Rightarrow> file_reader_execute w arg
     | WeatherFetcherTool \<Rightarrow> weather_execute w arg)"

text \<open>\<^verbatim>\<open>tool.execute(**parameters)\<close>: the call binds when the keys of the dict are
  exactly the one name of the signature, and raises \<^verbatim>\<open>TypeError\<close> otherwise.\<close>

definition execute :: "'f world \<Rightarrow> tool \<Rightarrow> (string \<times> 'f json) list \<Rightarrow> 'f pyval result" where
  "execute w t parameters =
    (case parameters of
       [(k, v)] \<Rightarrow>
         if [k] = expected_params t then tool_body w t v
         else Raises (PyExc TypeError ''TypeError'' (runtime_text w (BadCall (class_name t) [k])))
     | _ \<Rightarrow>
         Raises (PyExc TypeError ''TypeError''
           (runtime_text w (BadCall (class_name t) (map fst parameters)))))"

definition error_sentinels :: "string list" where
  "error_sentinels =
    [''error_parsing_llm_response'', ''error_in_tool_determination'',
     ''error_invalid_llm_response_structure'']"

definition no_tool_message :: string where
  "no_tool_message =
    ''I've processed your request. No specific tool was needed, or I couldn't determine one. How else can I help?''"

text \<open>Lines 207 to 225: the call of the tool and its two handlers.\<close>

definition run_tool ::
  "'f world \<Rightarrow> string \<Rightarrow> tool \<Rightarrow> (string \<times> 'f json) list \<Rightarrow> 'f pyval result" where
  "run_tool w tool_name t parameters =
    (case execute w t parameters of
       Returns result \<Rightarrow> Returns result
     | Raises e \<Rightarrow>
         if exc_class e = TypeError then
           Returns (PStr (''Error using tool '' @ tool_name @ '': incorrect parameters. Expected: ''
             @ py_repr (floats w) (JArr (map JStr (expected_params t)))
             @ ''. Got: '' @ py_repr (floats w) (JArr (map JStr (map fst parameters)))
             @ ''. Details: '' @ exc_text e))
         else if is_Exception e then
           Returns (PStr (''Sorry, an error occurred while using the '' @ tool_name @ '' tool: ''
             @ exc_text e))
         else Raises e)"

text \<open>Lines 183 to 188: \<^verbatim>\<open>tool_selection.get("tool")\<close>, which is \<^verbatim>\<open>None\<close> without
  the key, and the parameters, which are replaced by an empty dict when the key is missing
  or its value is not a dict.\<close>

definition selected_tool_name :: "(string \<times> 'f json) list \<Rightarrow> 'f json" where
  "selected_tool_name tool_selection =
    (case dict_get tool_selection ''tool'' of None \<Rightarrow> JNull | Some v \<Rightarrow> v)"

definition selected_parameters :: "(string \<times> 'f json) list \<Rightarrow> (string \<times> 'f json) list" where
  "selected_parameters tool_selection =
    (case dict_get tool_selection ''parameters'' of
       Some (JObj d) \<Rightarrow> d
     | _ \<Rightarrow> [])"

text \<open>Lines 190 to 225.  A tool name that is a list or a dict cannot be hashed, and
  \<^verbatim>\<open>tool_name not in self.tools\<close> raises.\<close>

definition dispatch :: "'f world \<Rightarrow> (string \<times> 'f json) list \<Rightarrow> 'f pyval result" where
  "dispatch w tool_selection =
    (let tool_name = selected_tool_name tool_selection;
         parameters = selected_parameters tool_selection
     in if tool_name \<in> set (map JStr error_sentinels) then
          (let error_details =
                 (case dict_get parameters ''details'' of
                    None \<Rightarrow> JStr ''Unknown error during tool determination.''
                  | Some v \<Rightarrow> v)
           in Returns (PStr (''Sorry, I had trouble deciding which tool to use. Details: ''
                @ py_str (floats w) error_details)))
        else if tool_name = JStr ''no_tool_needed'' \<or> \<not> truthy (floats w) tool_name then
          Returns (PStr no_tool_message)
        else
          (case tool_name of
             JArr vs \<Rightarrow> Raises (PyExc TypeError ''TypeError'' (runtime_text w (Unhashable ''list'')))
           | JObj d \<Rightarrow> Raises (PyExc TypeError ''TypeError'' (runtime_text w (Unhashable ''dict'')))
           | _ \<Rightarrow>
               (case (case tool_name of JStr n \<Rightarrow> map_of tools n | _ \<Rightarrow> None) of
                  None \<Rightarrow>
                    Returns (PStr (''Sorry, I don't know how to use the tool '' @ sq
                      @ py_str (floats w) tool_name @ sq @ '' or it's not available.''))
                | Some t \<Rightarrow> run_tool w (py_str (floats w) tool_name) t parameters)))"

text \<open>Lines 182 to 225, inside the outer \<^verbatim>\<open>try\<close>.\<close>

definition process_body :: "'f world \<Rightarrow> string \<Rightarrow> 'f pyval result" where
  "process_body w user_input =
    (case determine_tool w user_input of
       Raises e \<Rightarrow> Raises e
     | Returns tool_selection \<Rightarrow> dispatch w tool_selection)"

text \<open>Lines 181 and 227 to 229: the outer \<^verbatim>\<open>try\<close> and its handler.\<close>

definition process_request :: "'f world \<Rightarrow> string \<Rightarrow> 'f pyval result" where
  "process_request w user_input =
    (case process_body w user_input of
       Returns r \<Rightarrow> Returns r
     | Raises e \<Rightarrow>
         if is_Exception e then Returns (PStr (''An unexpected error occurred: '' @ exc_text e))
         else Raises e)"

text \<open>A world in which whatever is raised by the client, the evaluator, the weather tool
  and the file system is an instance of \<^verbatim>\<open>Exception\<close>.\<close>

definition raises_only_Exceptions :: "'f world \<Rightarrow> bool" where
  "raises_only_Exceptions w =
    ((\<forall>u e. llm w u = Failed e \<longrightarrow> is_Exception e)
     \<and> (\<forall>s e. py_eval w s = EvalRaises e \<longrightarrow> is_Exception e)
     \<and> (\<forall>v e. weather_execute w v = Raises e \<longrightarrow> is_Exception e)
     \<and> (\<forall>p e. fs_getsize (files w) p = Raises e \<longrightarrow> is_Exception e)
     \<and> (\<forall>p n e. fs_read_text (files w) p n = Raises e \<longrightarrow> is_Exception e)
     \<and> (\<forall>p e. fs_pdf_pages (files w) p = Raises e \<longrightarrow> is_Exception e))"

section \<open>A sample world\<close>

text \<open>A world to run the agent in: floats are written as the text of their
  \<^verbatim>\<open>repr\<close>, the client gives a fixed outcome, the evaluator knows \<^verbatim>\<open>2+2\<close>, one
  small text file exists under the base directory, and no weather key is set.\<close>

definition sample_floats :: "string float_ops" where
  "sample_floats =
    \<lparr>float_of_text = (\<lambda>t. t),
     float_repr = (\<lambda>x. x),
     float_is_zero = (\<lambda>x. x = ''0.0'' \<or> x = ''-0.0'')\<rparr>"

definition sample_files :: file_system where
  "sample_files =
    \<lparr>fs_exists = (\<lambda>p. p = ''/srv/agent/notes.txt''),
     fs_isfile = (\<lambda>p. p = ''/srv/agent/notes.txt''),
     fs_getsize = (\<lambda>p. Returns 5),
     fs_read_text = (\<lambda>p n. Returns (take n ''hello'')),
     fs_pdf_pages = (\<lambda>p. Returns [])\<rparr>"

definition sample_world :: "llm_outcome \<Rightarrow> string world" where
  "sample_world outcome =
    \<lparr>floats = sample_floats,
     llm = (\<lambda>user_input. outcome),
     runtime_text = (\<lambda>m. case m of
        BadCall c ks \<Rightarrow> c @ ''.execute() got unexpected keyword arguments''
      | Unhashable t \<Rightarrow> ''unhashable type: '' @ sq @ t @ sq
      | BadJoin t \<Rightarrow> ''expected str, bytes or os.PathLike object, not '' @ t),
     py_eval = (\<lambda>e. if e = ''2+2'' then Number ''4.0''
                    else EvalRaises (PyExc SyntaxError ''SyntaxError'' ''invalid syntax'')),
     FILE_READ_BASE_PATH = ''/srv/agent'',
     getcwd = ''/srv/agent'',
     PYPDF2_AVAILABLE = False,
     files = sample_files,
     weather_execute = (\<lambda>city. Returns (PStr
       ''Error: WEATHER_API_KEY is not set in the environment. This tool cannot function.''))\<rparr>"

section \<open>Properties\<close>

text \<open>The definitions that a computation on a given text unfolds.\<close>

lemmas text_defs =
  ord_def py_isspace_def lstrip_def rstrip_def strip_def startswith_def endswith_def
  json_ws_def skip_ws_def is_digit_def

lemmas decoder_defs =
  text_defs hex_val_def decode_uXXXX_def backslash_def digits_value_def match_integer_def
  match_frac_def match_exp_def int_of_text_def match_number_def scan_atom_def dict_of_pairs_def
  json_object.simps object_pairs.simps json_array.simps array_values.simps json_loads_def

lemmas response_defs =
  decoder_defs cleaned_response_for_parsing_def match_markdown_fallback_def parse_result_def
  interpret_response_def

lemmas dispatch_defs =
  response_defs determine_tool_def process_request_def process_body_def dispatch_def
  selected_tool_name_def selected_parameters_def dict_get_def error_sentinels_def tools_def
  run_tool_def execute_def expected_params_def class_name_def tool_body_def py_str_def
  truthy_def is_Exception_def sq_def no_tool_message_def repr_str_def repr_char_def
  py_isprintable_def

lemmas sample_defs = sample_world_def sample_floats_def sample_files_def


subsection \<open>The brace-span fallback\<close>

text \<open>
  Claim C2.  A reply that holds a valid decision object inside prose, such as
  \<^verbatim>\<open>Sure! {"tool": "weather_fetcher", "parameters": {"city": "Paris"}} Hope that helps.\<close>,
  is to be recovered by the brace-span fallback.  The code does not do it: the pattern of
  line 152 stops at the first closing brace, which closes the object of the parameters, so
  the span lacks the last brace of the decision, the second \<^verbatim>\<open>json.loads\<close> fails as
  the first did, and the result is the sentinel of line 162.
\<close>

theorem fallback_loses_nested_object:
  "match_markdown_fallback
      ''Sure! {\"tool\": \"weather_fetcher\", \"parameters\": {\"city\": \"Paris\"}} Hope that helps.''
     = Some ''{\"tool\": \"weather_fetcher\", \"parameters\": {\"city\": \"Paris\"}''
   \<and> interpret_response fo
      ''Sure! {\"tool\": \"weather_fetcher\", \"parameters\": {\"city\": \"Paris\"}} Hope that helps.''
     = error_parsing_after_fallback
      ''Sure! {\"tool\": \"weather_fetcher\", \"parameters\": {\"city\": \"Paris\"}} Hope that helps.''"
  by (simp add: response_defs)

subsection \<open>The dispatcher on a reply\<close>

lemma determine_tool_Content:
  "llm w u = Content raw \<Longrightarrow> determine_tool w u = Returns (interpret_response (floats w) raw)"
  by (simp add: determine_tool_def)

lemma process_request_Content:
  "llm w u = Content raw \<Longrightarrow>
   process_request w u =
     (case dispatch w (interpret_response (floats w) raw) of
        Returns r \<Rightarrow> Returns r
      | Raises e \<Rightarrow> if is_Exception e then Returns (PStr (''An unexpected error occurred: '' @ exc_text e)) else Raises e)"
  by (simp add: process_request_def process_body_def determine_tool_Content)

lemma registered_name:
  "map_of tools n = Some t \<Longrightarrow> n \<notin> set error_sentinels \<and> n \<noteq> ''no_tool_needed'' \<and> n \<noteq> []"
  by (auto simp: tools_def error_sentinels_def split: if_splits)

lemma dispatch_registered:
  assumes "selected_tool_name d = JStr n" and "map_of tools n = Some t"
  shows "dispatch w d = run_tool w n t (selected_parameters d)"
  using assms registered_name [OF assms(2)]
  by (auto simp: dispatch_def Let_def truthy_def py_str_def)


subsection \<open>What the dispatcher returns when the tool succeeds\<close>

text \<open>
  Claim C1, as stated: when the call of the selected tool succeeds, \<^verbatim>\<open>process_request\<close>
  returns the result of the tool coerced to text, and so always returns a string.  It is
  false of the code.  Line 210 returns the result as it is (the comment says "Return raw
  result"), and a successful \<^verbatim>\<open>CalculatorTool.execute\<close> returns a \<^verbatim>\<open>float\<close>: for
  the reply \<^verbatim>\<open>{"tool": "calculator", "parameters": {"expression": "2+2"}}\<close> the value
  returned is the float, not its text.
\<close>

theorem calculator_result_is_not_text:
  "process_request (sample_world (Content ''{\"tool\": \"calculator\", \"parameters\": {\"expression\": \"2+2\"}}'')) ''What is 2+2?'' = Returns (PFloat ''4.0'')
   \<and> process_request (sample_world (Content ''{\"tool\": \"calculator\", \"parameters\": {\"expression\": \"2+2\"}}'')) ''What is 2+2?'' \<noteq> Returns (PStr ''4.0'')"
  by (simp add: dispatch_defs sample_defs calculator_execute_def expression_char_def)

text \<open>
  Claim C1, amended: when the reply selects a registered tool and the call of its
  \<^verbatim>\<open>execute\<close> with the selected parameters succeeds, \<^verbatim>\<open>process_request\<close> returns
  the very value the tool returned, neither reformatted nor coerced: text for a textual
  result, the float for a numeric result of the calculator.
\<close>

theorem tool_result_returned_unmodified:
  assumes "llm w u = Content raw"
    and "selected_tool_name (interpret_response (floats w) raw) = JStr n"
    and "map_of tools n = Some t"
    and "execute w t (selected_parameters (interpret_response (floats w) raw)) = Returns r"
  shows "process_request w u = Returns r"
  using assms by (simp add: process_request_Content dispatch_registered run_tool_def)

theorem tool_result_returned_unmodified_witness:
  "llm (sample_world (Content ''{\"tool\": \"calculator\", \"parameters\": {\"expression\": \"2+2\"}}'')) ''What is 2+2?'' = Content ''{\"tool\": \"calculator\", \"parameters\": {\"expression\": \"2+2\"}}''
   \<and> selected_tool_name (interpret_response (floats (sample_world (Content ''{\"tool\": \"calculator\", \"parameters\": {\"expression\": \"2+2\"}}''))) ''{\"tool\": \"calculator\", \"parameters\": {\"expression\": \"2+2\"}}'')
       = JStr ''calculator''
   \<and> map_of tools ''calculator'' = Some CalculatorTool
   \<and> execute (sample_world (Content ''{\"tool\": \"calculator\", \"parameters\": {\"expression\": \"2+2\"}}'')) CalculatorTool
        (selected_parameters (interpret_response (floats (sample_world (Content ''{\"tool\": \"calculator\", \"parameters\": {\"expression\": \"2+2\"}}''))) ''{\"tool\": \"calculator\", \"parameters\": {\"expression\": \"2+2\"}}''))
       = Returns (PFloat ''4.0'')
   \<and> process_request (sample_world (Content ''{\"tool\": \"calculator\", \"parameters\": {\"expression\": \"2+2\"}}'')) ''What is 2+2?'' = Returns (PFloat ''4.0'')"
proof -
  let ?w = "sample_world (Content ''{\"tool\": \"calculator\", \"parameters\": {\"expression\": \"2+2\"}}'')"
  have h1: "llm ?w ''What is 2+2?'' = Content ''{\"tool\": \"calculator\", \"parameters\": {\"expression\": \"2+2\"}}''"
    by (simp add: sample_defs)
  have h2: "selected_tool_name (interpret_response (floats ?w) ''{\"tool\": \"calculator\", \"parameters\": {\"expression\": \"2+2\"}}'') = JStr ''calculator''"
    by (simp add: dispatch_defs sample_defs)
  have h3: "map_of tools ''calculator'' = Some CalculatorTool"
    by (simp add: tools_def)
  have h4: "execute ?w CalculatorTool (selected_parameters (interpret_response (floats ?w) ''{\"tool\": \"calculator\", \"parameters\": {\"expression\": \"2+2\"}}''))
      = Returns (PFloat ''4.0'')"
    by (simp add: dispatch_defs sample_defs calculator_execute_def expression_char_def)
  from tool_result_returned_unmodified [OF h1 h2 h3 h4] h1 h2 h3 h4 show ?thesis
    by simp
qed

subsection \<open>Exceptions\<close>

lemma calculator_raises:
  "raises_only_Exceptions w \<Longrightarrow> calculator_execute w v = Raises e \<Longrightarrow> is_Exception e"
  by (cases v)
     (auto simp: calculator_execute_def raises_only_Exceptions_def is_Exception_def
           split: if_splits eval_outcome.splits exc_class.splits)

lemma finish_content_returns: "finish_content p c \<noteq> Raises e"
  by (simp add: finish_content_def)

lemma file_reader_raises:
  "raises_only_Exceptions w \<Longrightarrow> file_reader_execute w v = Raises e \<Longrightarrow> is_Exception e"
  by (cases v)
     (auto simp: file_reader_execute_def read_checked_def read_pdf_def read_plain_def Let_def
           raises_only_Exceptions_def finish_content_returns
           split: if_splits result.splits)

lemma is_Exception_TypeError [simp]: "is_Exception (PyExc TypeError n t)"
  by (simp add: is_Exception_def)

lemma execute_raises:
  assumes "raises_only_Exceptions w" and "execute w t ps = Raises e"
  shows "is_Exception e"
proof (cases "\<exists>k v. ps = [(k, v)] \<and> [k] = expected_params t")
  case False
  with assms(2) show ?thesis
    by (auto simp: execute_def split: list.splits if_splits)
next
  case True
  then obtain k v where "ps = [(k, v)]" and "[k] = expected_params t" by blast
  with assms(2) have body: "tool_body w t v = Raises e"
    by (simp add: execute_def)
  show ?thesis
  proof (cases t)
    case CalculatorTool
    with body assms(1) show ?thesis by (auto simp: tool_body_def intro: calculator_raises)
  next
    case FileReaderTool
    with body assms(1) show ?thesis by (auto simp: tool_body_def intro: file_reader_raises)
  next
    case WeatherFetcherTool
    with body assms(1) show ?thesis by (auto simp: tool_body_def raises_only_Exceptions_def)
  qed
qed

lemma run_tool_returns:
  assumes "raises_only_Exceptions w"
  shows "\<exists>r. run_tool w n t ps = Returns r"
proof (cases "execute w t ps")
  case (Returns r)
  then show ?thesis by (simp add: run_tool_def)
next
  case (Raises e)
  with execute_raises [OF assms this] show ?thesis by (simp add: run_tool_def)
qed

lemma dispatch_raises:
  assumes "raises_only_Exceptions w" and "dispatch w d = Raises e"
  shows "is_Exception e"
proof -
  have "\<And>n t ps. run_tool w n t ps \<noteq> Raises e"
    using run_tool_returns [OF assms(1)] by (metis result.distinct(1))
  with assms(2) show ?thesis
    by (auto simp: dispatch_def Let_def split: if_splits json.splits option.splits)
qed

text \<open>
  Claim C3, as stated: whatever the client and the tools do, raising arbitrary exceptions
  included, \<^verbatim>\<open>process_request\<close> never lets an exception reach its caller.  It is false
  of the code: every handler of \<^verbatim>\<open>src/main.py\<close> is \<^verbatim>\<open>except Exception\<close>, which does
  not stop \<^verbatim>\<open>KeyboardInterrupt\<close> or \<^verbatim>\<open>SystemExit\<close>.  A \<^verbatim>\<open>KeyboardInterrupt\<close>
  during the call of the client passes the handler of line 175 and the handler of line 227;
  \<^verbatim>\<open>run_cli\<close> is written for that, with a handler of its own at line 275.
\<close>

theorem keyboard_interrupt_propagates:
  "process_request (sample_world (Failed (PyExc NonException ''KeyboardInterrupt'' []))) ''hello''
     = Raises (PyExc NonException ''KeyboardInterrupt'' [])"
  by (simp add: process_request_def process_body_def determine_tool_def is_Exception_def
        sample_defs)

text \<open>
  Claim C3, amended: when every exception raised by the client, by the evaluator behind the
  calculator, by the weather tool and by the file system is an instance of
  \<^verbatim>\<open>Exception\<close>, then for every input \<^verbatim>\<open>process_request\<close> returns a value and raises
  nothing: each failure is caught and turned into a returned message.
\<close>

theorem exceptions_are_converted:
  assumes "raises_only_Exceptions w"
  shows "\<exists>r. process_request w u = Returns r"
proof (cases "llm w u")
  case (Content raw)
  show ?thesis
    using dispatch_raises [OF assms]
    by (auto simp: process_request_Content [OF Content] split: result.splits)
next
  case (Failed e)
  with assms have "is_Exception e" by (auto simp: raises_only_Exceptions_def)
  with Failed show ?thesis
    by (simp add: process_request_def process_body_def determine_tool_def dispatch_def
          selected_tool_name_def selected_parameters_def dict_get_def error_in_tool_determination_def
          error_sentinels_def)
qed

theorem exceptions_are_converted_witness:
  "raises_only_Exceptions (sample_world (Failed (PyExc OtherException ''APIError'' ''rate limit'')))
   \<and> (\<exists>r. process_request (sample_world (Failed (PyExc OtherException ''APIError'' ''rate limit'')))
             ''hello'' = Returns r)"
proof -
  have h: "raises_only_Exceptions (sample_world (Failed (PyExc OtherException ''APIError'' ''rate limit'')))"
    by (simp add: raises_only_Exceptions_def sample_defs is_Exception_def)
  from exceptions_are_converted [OF h] h show ?thesis
    by simp
qed

subsection \<open>A reply without JSON\<close>




subsection \<open>Parameters that do not fit the tool\<close>

text \<open>
  Claim C7.  When the reply selects a registered tool and the keys of the selected
  parameters are not the names of the parameters of its \<^verbatim>\<open>execute\<close>,
  \<^verbatim>\<open>process_request\<close> returns, without raising, a message that names the tool, shows the
  list of the expected names and the list of the names supplied, and ends with the text of
  the \<^verbatim>\<open>TypeError\<close>: for the calculator called with \<^verbatim>\<open>{"expr": "2+2"}\<close>, "Expected:
  ['expression']. Got: ['expr']."
\<close>

theorem parameter_mismatch_reported:
  assumes "llm w u = Content raw"
    and "selected_tool_name (interpret_response (floats w) raw) = JStr n"
    and "map_of tools n = Some t"
    and "map fst (selected_parameters (interpret_response (floats w) raw)) \<noteq> expected_params t"
  shows "process_request w u =
    Returns (PStr (''Error using tool '' @ n @ '': incorrect parameters. Expected: ''
       @ py_repr (floats w) (JArr (map JStr (expected_params t)))
       @ ''. Got: '' @ py_repr (floats w) (JArr (map JStr (map fst (selected_parameters (interpret_response (floats w) raw)))))
       @ ''. Details: '' @ runtime_text w (BadCall (class_name t) (map fst (selected_parameters (interpret_response (floats w) raw))))))"
proof -
  let ?ps = "selected_parameters (interpret_response (floats w) raw)"
  have "execute w t ?ps = Raises (PyExc TypeError ''TypeError'' (runtime_text w (BadCall (class_name t) (map fst ?ps))))"
    using assms(4) by (auto simp: execute_def split: list.splits)
  then show ?thesis
    using assms(1-3) by (simp add: process_request_Content dispatch_registered run_tool_def)
qed


theorem parameter_mismatch_reported_witness:
  "llm (sample_world (Content ''{\"tool\": \"calculator\", \"parameters\": {\"expr\": \"2+2\"}}'')) ''What is 2+2?'' = Content ''{\"tool\": \"calculator\", \"parameters\": {\"expr\": \"2+2\"}}''
   \<and> selected_tool_name (interpret_response (floats (sample_world (Content ''{\"tool\": \"calculator\", \"parameters\": {\"expr\": \"2+2\"}}''))) ''{\"tool\": \"calculator\", \"parameters\": {\"expr\": \"2+2\"}}'')
       = JStr ''calculator''
   \<and> map_of tools ''calculator'' = Some CalculatorTool
   \<and> map fst (selected_parameters (interpret_response (floats (sample_world (Content ''{\"tool\": \"calculator\", \"parameters\": {\"expr\": \"2+2\"}}''))) ''{\"tool\": \"calculator\", \"parameters\": {\"expr\": \"2+2\"}}''))
       \<noteq> expected_params CalculatorTool
   \<and> process_request (sample_world (Content ''{\"tool\": \"calculator\", \"parameters\": {\"expr\": \"2+2\"}}'')) ''What is 2+2?'' =
       Returns (PStr (''Error using tool calculator: incorrect parameters. Expected: ['expression']. Got: ['expr']. Details: ''
         @ ''CalculatorTool.execute() got unexpected keyword arguments''))"
proof -
  let ?w = "sample_world (Content ''{\"tool\": \"calculator\", \"parameters\": {\"expr\": \"2+2\"}}'')"
  have h1: "llm ?w ''What is 2+2?'' = Content ''{\"tool\": \"calculator\", \"parameters\": {\"expr\": \"2+2\"}}''"
    by (simp add: sample_defs)
  have h2: "selected_tool_name (interpret_response (floats ?w) ''{\"tool\": \"calculator\", \"parameters\": {\"expr\": \"2+2\"}}'') = JStr ''calculator''"
    by (simp add: dispatch_defs sample_defs)
  have h3: "map_of tools ''calculator'' = Some CalculatorTool"
    by (simp add: tools_def)
  have h4: "map fst (selected_parameters (interpret_response (floats ?w) ''{\"tool\": \"calculator\", \"parameters\": {\"expr\": \"2+2\"}}''))
      \<noteq> expected_params CalculatorTool"
    by (simp add: dispatch_defs sample_defs)
  have h5: "map fst (selected_parameters (interpret_response (floats ?w) ''{\"tool\": \"calculator\", \"parameters\": {\"expr\": \"2+2\"}}'')) = [''expr'']"
    by (simp add: dispatch_defs sample_defs)
  have h6: "runtime_text ?w (BadCall ''CalculatorTool'' [''expr''])
      = ''CalculatorTool.execute() got unexpected keyword arguments''"
    by (simp add: sample_defs)
  have h7: "repr_str ''expression'' = CHR 0x27 # ''expression'' @ [CHR 0x27]"
    by (simp add: repr_str_def repr_char_def py_isprintable_def ord_def Let_def)
  have h8: "repr_str ''expr'' = CHR 0x27 # ''expr'' @ [CHR 0x27]"
    by (simp add: repr_str_def repr_char_def py_isprintable_def ord_def Let_def)
  from parameter_mismatch_reported [OF h1 h2 h3 h4] h1 h2 h3 h4 show ?thesis
    by (simp add: h5 h6 h7 h8 expected_params_def class_name_def)
qed

subsection \<open>A tool that is not registered\<close>




subsection \<open>The file reader stays under its base directory\<close>

lemma split_slash_not_Nil [simp]: "split_slash s \<noteq> []"
  by (induction s) (auto split: list.splits)



lemma contains_Cons: "contains cs sub \<Longrightarrow> contains (c # cs) sub"
  by simp















subsection \<open>The decoder, case by case\<close>





lemma scan_once_Some:
  "scan_once fo s = Some (v, r) \<longleftrightarrow>
    (\<exists>c cs. s = c # cs \<and>
      (if c = CHR 0x22 then (\<exists>str. scanstring cs = Some (str, r) \<and> v = JStr str)
       else if c = CHR ''{'' then json_object fo cs = Some (v, r)
       else if c = CHR ''['' then json_array fo cs = Some (v, r)
       else scan_atom fo s = Some (v, r)))"
  by (cases s) (auto split: option.splits)


subsection \<open>The shape of a decision\<close>


















end
